theory Spec2Isabelle
  imports
    Complex_Main
    "HOL-Library.DAList"
    "HOL-Library.Sublist"
    "HOL-Library.Char_ord"
    "HOL-Library.List_Lexorder"
begin

section \<open>Data model\<close>

text \<open>
  The analyzer package (\<^verbatim>\<open>Advanced_Data_Analyzer/analyzer\<close>) works on pandas data frames
  read from parquet files. A data frame is modelled as the ordered list of its named
  columns. A column is either of a numeric dtype (cells are numbers, NaN is \<open>None\<close>) or of
  dtype object (cells are text labels, a missing cell is \<open>None\<close>); these are the two
  dtypes that \<^verbatim>\<open>select_dtypes(include=['number'])\<close> and
  \<^verbatim>\<open>select_dtypes(include=['object', 'category'])\<close> pick out. A numeric
  cell holds the real number that its float64 value denotes; an infinite cell is outside
  the model. Row labels are the positions
  \<open>0, 1, \<dots>\<close> (the files are written with \<^verbatim>\<open>index=False\<close>).

  The package computes in float64. Where a result of the package depends on how pandas,
  numpy or Python round (the quartiles and the IQR bounds, the missing-percentages, the
  summary statistics), the computation is a parameter of the model, as the scikit-learn
  calls are, and the comparisons of float64 values, which are exact, are modelled. The
  median and the mode that fill missing cells are the exact ones.

  Every function of the package takes a file path and starts with
  \<^verbatim>\<open>pd.read_parquet(file_path)\<close>; the model takes the table stored there.
  \<^verbatim>\<open>impute_missing\<close> returns the path of the file that holds its result; the model
  returns the table stored at the returned path.
\<close>

datatype error =
    KeyError string
  | TypeError
  | ValueError string
  | IndexError

datatype column = NumCol "real option list" | ObjCol "string option list"

type_synonym table = "(string \<times> column) list"

record profile =
  rows :: nat
  cols :: nat
  missing :: "(string, real) alist"
  numeric_cols :: "string list"
  categorical_cols :: "string list"
  date_cols :: "string list"
  high_cardinality :: "string list"
  dimensionality :: string

record cleaning_result =
  imputed_columns :: "string list"
  skipped_columns :: "string list"
  method_used :: string

record outlier_result =
  outlier_indices :: "nat list"
  outlier_method_used :: string
  outlier_count :: nat

subsection \<open>Dictionaries\<close>

text \<open>
  \<^verbatim>\<open>profile['missing']\<close> is a Python dict: its keys are unique and it keeps insertion
  order. It is modelled by the type of association lists with distinct keys.
\<close>

definition items :: "('k, 'v) alist \<Rightarrow> ('k \<times> 'v) list" where
  "items d = DAList.impl_of d"

definition keys :: "('k, 'v) alist \<Rightarrow> 'k list" where
  "keys d = map fst (items d)"

definition dict_values :: "('k, 'v) alist \<Rightarrow> 'v list" where
  "dict_values d = map snd (items d)"

definition contains :: "('k, 'v) alist \<Rightarrow> 'k \<Rightarrow> bool" where
  "contains d k = (DAList.lookup d k \<noteq> None)"

text \<open>Python's \<^verbatim>\<open>max\<close> of a non-empty list.\<close>

definition py_max :: "real list \<Rightarrow> real" where
  "py_max xs = fold max (tl xs) (hd xs)"

subsection \<open>Columns and data frames\<close>

primrec observed :: "'a option list \<Rightarrow> 'a list" where
  "observed [] = []"
| "observed (v # vs) = (case v of None \<Rightarrow> observed vs | Some x \<Rightarrow> x # observed vs)"

fun isnull :: "column \<Rightarrow> bool list" where
  "isnull (NumCol vs) = map (\<lambda>v. v = None) vs"
| "isnull (ObjCol vs) = map (\<lambda>v. v = None) vs"

definition n_missing :: "column \<Rightarrow> nat" where
  "n_missing c = length (filter id (isnull c))"

definition n_rows :: "column \<Rightarrow> nat" where
  "n_rows c = length (isnull c)"

text \<open>\<^verbatim>\<open>df[col]\<close> raises \<^verbatim>\<open>KeyError\<close> for a name that is not a column.\<close>

definition df_get :: "table \<Rightarrow> string \<Rightarrow> error + column" where
  "df_get df col = (case map_of df col of None \<Rightarrow> Inl (KeyError col) | Some c \<Rightarrow> Inr c)"

text \<open>\<^verbatim>\<open>df[col] = series\<close> replaces the column in place, or appends a new one.\<close>

definition df_set :: "table \<Rightarrow> string \<Rightarrow> column \<Rightarrow> table" where
  "df_set df col c = AList.update col c df"

text \<open>\<^verbatim>\<open>len(df)\<close>: the number of rows.\<close>

definition df_len :: "table \<Rightarrow> nat" where
  "df_len df = (case df of [] \<Rightarrow> 0 | (_, c) # _ \<Rightarrow> n_rows c)"

text \<open>\<^verbatim>\<open>df[cols]\<close> with a list of names: the sub-frame of these columns, in this order.\<close>

fun df_select :: "table \<Rightarrow> string list \<Rightarrow> error + column list" where
  "df_select df [] = Inr []"
| "df_select df (col # rest) =
     (case df_get df col of
        Inl e \<Rightarrow> Inl e
      | Inr c \<Rightarrow> (case df_select df rest of Inl e \<Rightarrow> Inl e | Inr cs \<Rightarrow> Inr (c # cs)))"

text \<open>
  Handing a sub-frame to scikit-learn converts it to a float array; a column of text
  labels makes the conversion raise \<^verbatim>\<open>ValueError\<close>.
\<close>

fun as_float_array :: "column list \<Rightarrow> error + real option list list" where
  "as_float_array [] = Inr []"
| "as_float_array (NumCol vs # rest) =
     (case as_float_array rest of Inl e \<Rightarrow> Inl e | Inr A \<Rightarrow> Inr (vs # A))"
| "as_float_array (ObjCol vs # rest) = Inl (ValueError ''could not convert string to float'')"

subsection \<open>Series reductions\<close>

text \<open>\<^verbatim>\<open>Series.median()\<close>: the median of the non-missing values, NaN when there is none.\<close>

definition median_of :: "real option list \<Rightarrow> real option" where
  "median_of vs =
     (let xs = sort (observed vs); n = length xs
      in if n = 0 then None
         else if odd n then Some (xs ! (n div 2))
         else Some ((xs ! (n div 2 - 1) + xs ! (n div 2)) / 2))"

text \<open>
  \<^verbatim>\<open>Series.mode()\<close>: the most frequent non-missing values, sorted ascending; empty when
  every cell is missing.
\<close>

definition mode_of :: "('a::linorder) option list \<Rightarrow> 'a list" where
  "mode_of vs =
     (let xs = observed vs; m = fold max (map (count_list xs) xs) 0
      in sort (remdups (filter (\<lambda>x. count_list xs x = m) xs)))"

text \<open>\<^verbatim>\<open>Series.fillna(value)\<close>; filling with NaN changes nothing.\<close>

definition fillna :: "'a option list \<Rightarrow> 'a option \<Rightarrow> 'a option list" where
  "fillna vs fill = map (\<lambda>v. case v of None \<Rightarrow> fill | Some x \<Rightarrow> Some x) vs"

text \<open>
  The body of the categorical loops:
  \<^verbatim>\<open>mode_val = df[col].mode(); if len(mode_val) > 0: df[col] = df[col].fillna(mode_val[0])\<close>.
\<close>

fun mode_fill :: "column \<Rightarrow> column" where
  "mode_fill (NumCol vs) =
     (case mode_of vs of [] \<Rightarrow> NumCol vs | m # _ \<Rightarrow> NumCol (fillna vs (Some m)))"
| "mode_fill (ObjCol vs) =
     (case mode_of vs of [] \<Rightarrow> ObjCol vs | m # _ \<Rightarrow> ObjCol (fillna vs (Some m)))"

section \<open>Imputation (cleaning.py)\<close>

text \<open>
  \<^verbatim>\<open>KNNImputer(n_neighbors=5).fit_transform\<close> belongs to scikit-learn, not to this
  package. It is a parameter of the model: a function from the float array (given by
  columns) to the imputed array, or an error.
\<close>

type_synonym imputer = "real option list list \<Rightarrow> error + real option list list"

text \<open>
  The numeric loop of \<^verbatim>\<open>_simple_impute\<close>:
  \<^verbatim>\<open>df[col] = df[col].fillna(df[col].median())\<close>. The median of a column of text
  labels raises \<^verbatim>\<open>TypeError\<close>; of an object column that holds no label at all it
  is NaN, and filling with NaN leaves the column as it is.
\<close>

fun simple_numeric :: "string list \<Rightarrow> (string, real) alist \<Rightarrow> table \<Rightarrow> error + table" where
  "simple_numeric [] miss df = Inr df"
| "simple_numeric (col # rest) miss df =
     (if contains miss col then
        (case df_get df col of
           Inl e \<Rightarrow> Inl e
         | Inr (ObjCol vs) \<Rightarrow>
             (if observed vs = [] then simple_numeric rest miss df else Inl TypeError)
         | Inr (NumCol vs) \<Rightarrow>
             simple_numeric rest miss (df_set df col (NumCol (fillna vs (median_of vs)))))
      else simple_numeric rest miss df)"

text \<open>The categorical loop, written twice in the source (in both \<^verbatim>\<open>_simple_impute\<close>
  and \<^verbatim>\<open>_knn_impute\<close>).\<close>

fun categorical_mode :: "string list \<Rightarrow> (string, real) alist \<Rightarrow> table \<Rightarrow> error + table" where
  "categorical_mode [] miss df = Inr df"
| "categorical_mode (col # rest) miss df =
     (if contains miss col then
        (case df_get df col of
           Inl e \<Rightarrow> Inl e
         | Inr c \<Rightarrow> categorical_mode rest miss (df_set df col (mode_fill c)))
      else categorical_mode rest miss df)"

definition simple_impute :: "table \<Rightarrow> profile \<Rightarrow> error + table" where
  "simple_impute df prof =
     (case simple_numeric (numeric_cols prof) (missing prof) df of
        Inl e \<Rightarrow> Inl e
      | Inr df1 \<Rightarrow> categorical_mode (categorical_cols prof) (missing prof) df1)"

text \<open>
  \<^verbatim>\<open>df[numeric_cols] = array\<close>: the array must have one column per key, and every
  column as many rows as the frame; the columns are then stored one by one.
\<close>

fun df_store :: "table \<Rightarrow> string list \<Rightarrow> real option list list \<Rightarrow> error + table" where
  "df_store df [] [] = Inr df"
| "df_store df (col # rest) (vs # A) =
     (if length vs = df_len df then df_store (df_set df col (NumCol vs)) rest A
      else Inl (ValueError ''Length of values does not match length of index''))"
| "df_store df _ _ = Inl (ValueError ''Columns must be same length as key'')"

definition df_set_array :: "table \<Rightarrow> string list \<Rightarrow> real option list list \<Rightarrow> error + table" where
  "df_set_array df ks A =
     (if length A \<noteq> length ks then Inl (ValueError ''Columns must be same length as key'')
      else df_store df ks A)"

text \<open>
  The numeric part of \<^verbatim>\<open>_knn_impute\<close>:
  \<^verbatim>\<open>if numeric_cols: df[numeric_cols] = imputer.fit_transform(df[numeric_cols])\<close>.
\<close>

definition knn_numeric :: "imputer \<Rightarrow> table \<Rightarrow> string list \<Rightarrow> error + table" where
  "knn_numeric knn df names =
     (if names \<noteq> [] then
        (case df_select df names of
           Inl e \<Rightarrow> Inl e
         | Inr X \<Rightarrow>
             (case as_float_array X of
                Inl e \<Rightarrow> Inl e
              | Inr A \<Rightarrow>
                  (case knn A of
                     Inl e \<Rightarrow> Inl e
                   | Inr B \<Rightarrow> df_set_array df names B)))
      else Inr df)"

definition knn_impute :: "imputer \<Rightarrow> table \<Rightarrow> profile \<Rightarrow> error + table" where
  "knn_impute knn df prof =
     (case knn_numeric knn df (numeric_cols prof) of
        Inl e \<Rightarrow> Inl e
      | Inr df1 \<Rightarrow> categorical_mode (categorical_cols prof) (missing prof) df1)"

definition random_forest_impute :: "imputer \<Rightarrow> table \<Rightarrow> profile \<Rightarrow> error + table" where
  "random_forest_impute knn df prof = knn_impute knn df prof"

text \<open>The eligible and the skipped entries of \<^verbatim>\<open>profile['missing']\<close>.\<close>

definition cols_to_impute :: "profile \<Rightarrow> real \<Rightarrow> (string, real) alist" where
  "cols_to_impute prof impute_threshold =
     DAList.filter (\<lambda>(col, pct). pct \<le> impute_threshold) (missing prof)"

definition skipped :: "profile \<Rightarrow> real \<Rightarrow> (string, real) alist" where
  "skipped prof impute_threshold =
     DAList.filter (\<lambda>(col, pct). pct > impute_threshold) (missing prof)"

text \<open>The resolution of \<^verbatim>\<open>method == 'auto'\<close>.\<close>

definition auto_method :: "real \<Rightarrow> string" where
  "auto_method max_missing_pct =
     (if max_missing_pct < 5 then ''simple''
      else if max_missing_pct < 15 then ''knn''
      else ''random_forest'')"

definition impute_missing ::
  "imputer \<Rightarrow> table \<Rightarrow> profile \<Rightarrow> string \<Rightarrow> real \<Rightarrow> error + (table \<times> cleaning_result)" where
  "impute_missing knn df prof method impute_threshold =
     (if items (missing prof) = [] then
        Inr (df, \<lparr>imputed_columns = [], skipped_columns = [], method_used = ''none''\<rparr>)
      else if items (cols_to_impute prof impute_threshold) = [] then
        Inr (df, \<lparr>imputed_columns = [],
                  skipped_columns = keys (skipped prof impute_threshold),
                  method_used = ''none''\<rparr>)
      else
        (let method1 = (if method = ''auto''
                        then auto_method (py_max (dict_values (cols_to_impute prof impute_threshold)))
                        else method);
             impute_profile = prof\<lparr>missing := cols_to_impute prof impute_threshold\<rparr>
         in case (if method1 = ''simple'' then simple_impute df impute_profile
                  else if method1 = ''knn'' then knn_impute knn df impute_profile
                  else if method1 = ''random_forest'' then random_forest_impute knn df impute_profile
                  else Inl (ValueError (''Unknown imputation method: '' @ method1))) of
              Inl e \<Rightarrow> Inl e
            | Inr df1 \<Rightarrow>
                Inr (df1, \<lparr>imputed_columns = keys (cols_to_impute prof impute_threshold),
                           skipped_columns = keys (skipped prof impute_threshold),
                           method_used = method1\<rparr>)))"

section \<open>Outlier detection (cleaning.py)\<close>

text \<open>
  \<^verbatim>\<open>LocalOutlierFactor(n_neighbors=5, contamination=0.1).fit_predict\<close> and
  \<^verbatim>\<open>IsolationForest(contamination=0.1, random_state=42).fit_predict\<close> belong to
  scikit-learn. They are parameters of the model: functions from the rows of the float
  array to one label per row (\<open>-1\<close> for an outlier), or an error.
\<close>

type_synonym detector = "real list list \<Rightarrow> error + int list"

text \<open>
  A float64 value: a finite number, an infinity or NaN. The comparison \<^verbatim>\<open><\<close> of two
  float64 values is exact, and false when one of them is NaN.
\<close>

datatype float64 = Finite real | PosInf | NegInf | NaN

fun flt :: "float64 \<Rightarrow> float64 \<Rightarrow> bool" where
  "flt NaN y = False"
| "flt x NaN = False"
| "flt (Finite a) (Finite b) = (a < b)"
| "flt PosInf y = False"
| "flt x NegInf = False"
| "flt x y = True"

text \<open>
  The float64 computations of \<^verbatim>\<open>_iqr_outliers\<close> are parameters of the model:
  \<^verbatim>\<open>Series.quantile(q)\<close> of pandas, from the cells of the column, and the float64
  subtraction, addition and multiplication, each rounding its result.
\<close>

record numerics =
  quantile :: "real option list \<Rightarrow> real \<Rightarrow> float64"
  fsub :: "float64 \<Rightarrow> float64 \<Rightarrow> float64"
  fadd :: "float64 \<Rightarrow> float64 \<Rightarrow> float64"
  fmul :: "float64 \<Rightarrow> float64 \<Rightarrow> float64"

text \<open>
  The rows selected by
  \<^verbatim>\<open>df[(df[col] < lower_bound) | (df[col] > upper_bound)].index\<close>. A missing cell is
  NaN: it is on neither side of a bound.
\<close>

definition out_of_bounds :: "real option list \<Rightarrow> float64 \<Rightarrow> float64 \<Rightarrow> nat list" where
  "out_of_bounds vs lower_bound upper_bound =
     filter (\<lambda>i. case vs ! i of
                    None \<Rightarrow> False
                  | Some v \<Rightarrow> flt (Finite v) lower_bound \<or> flt upper_bound (Finite v))
       [0..<length vs]"

text \<open>
  The loop of \<^verbatim>\<open>_iqr_outliers\<close>, with the set of indices found so far. The quantile
  of a column of text labels raises \<^verbatim>\<open>TypeError\<close>; an object column that holds no
  label at all has no row outside its bounds.
\<close>

fun iqr_loop :: "numerics \<Rightarrow> table \<Rightarrow> string list \<Rightarrow> nat set \<Rightarrow> error + nat set" where
  "iqr_loop num df [] acc = Inr acc"
| "iqr_loop num df (col # rest) acc =
     (case df_get df col of
        Inl e \<Rightarrow> Inl e
      | Inr (ObjCol vs) \<Rightarrow>
          (if observed vs = [] then iqr_loop num df rest acc else Inl TypeError)
      | Inr (NumCol vs) \<Rightarrow>
          (let Q1 = quantile num vs 0.25;
               Q3 = quantile num vs 0.75;
               IQR = fsub num Q3 Q1;
               lower_bound = fsub num Q1 (fmul num (Finite 1.5) IQR);
               upper_bound = fadd num Q3 (fmul num (Finite 1.5) IQR)
           in iqr_loop num df rest (acc \<union> set (out_of_bounds vs lower_bound upper_bound))))"

definition iqr_outliers :: "numerics \<Rightarrow> table \<Rightarrow> string list \<Rightarrow> error + nat list" where
  "iqr_outliers num df names =
     (case iqr_loop num df names {} of
        Inl e \<Rightarrow> Inl e
      | Inr found \<Rightarrow> Inr (sorted_list_of_set found))"

text \<open>
  \<^verbatim>\<open>X = df[numeric_cols].dropna()\<close>: the labels of the rows that have no missing cell in
  the selected columns.
\<close>

definition dropna_index :: "nat \<Rightarrow> column list \<Rightarrow> nat list" where
  "dropna_index n X = filter (\<lambda>i. list_all (\<lambda>c. \<not> isnull c ! i) X) [0..<n]"

text \<open>The rows of the float array at the given labels.\<close>

definition rows_at :: "real option list list \<Rightarrow> nat list \<Rightarrow> real list list" where
  "rows_at A idx = map (\<lambda>i. observed (map (\<lambda>vs. vs ! i) A)) idx"

text \<open>
  \<^verbatim>\<open>X.index[outlier_labels == -1].tolist()\<close>: a boolean mask of the wrong length raises
  \<^verbatim>\<open>IndexError\<close>.
\<close>

definition labelled_outliers :: "nat list \<Rightarrow> int list \<Rightarrow> error + nat list" where
  "labelled_outliers idx labels =
     (if length labels \<noteq> length idx then Inl IndexError
      else Inr (map fst (filter (\<lambda>(i, l). l = - 1) (zip idx labels))))"

definition knn_outliers :: "detector \<Rightarrow> table \<Rightarrow> string list \<Rightarrow> error + nat list" where
  "knn_outliers lof df names =
     (case df_select df names of
        Inl e \<Rightarrow> Inl e
      | Inr X \<Rightarrow>
          (let idx = dropna_index (df_len df) X
           in if length idx < 10 then Inr []
              else
                (case as_float_array X of
                   Inl e \<Rightarrow> Inl e
                 | Inr A \<Rightarrow>
                     (case lof (rows_at A idx) of
                        Inl e \<Rightarrow> Inl e
                      | Inr outlier_labels \<Rightarrow>
                          (case labelled_outliers idx outlier_labels of
                             Inl e \<Rightarrow> Inl e
                           | Inr found \<Rightarrow> Inr (sort found))))))"

definition isolation_forest_outliers :: "detector \<Rightarrow> table \<Rightarrow> string list \<Rightarrow> error + nat list" where
  "isolation_forest_outliers iso_forest df names =
     (case df_select df names of
        Inl e \<Rightarrow> Inl e
      | Inr X \<Rightarrow>
          (let idx = dropna_index (df_len df) X
           in if length idx < 10 then Inr []
              else
                (case as_float_array X of
                   Inl e \<Rightarrow> Inl e
                 | Inr A \<Rightarrow>
                     (case iso_forest (rows_at A idx) of
                        Inl e \<Rightarrow> Inl e
                      | Inr outlier_labels \<Rightarrow>
                          (case labelled_outliers idx outlier_labels of
                             Inl e \<Rightarrow> Inl e
                           | Inr found \<Rightarrow> Inr (sort found))))))"

text \<open>The resolution of \<^verbatim>\<open>method == 'auto'\<close> in \<^verbatim>\<open>detect_outliers\<close>.\<close>

definition auto_detector :: "nat \<Rightarrow> string" where
  "auto_detector n_numeric =
     (if n_numeric < 5 then ''iqr''
      else if n_numeric < 10 then ''knn''
      else ''isolation_forest'')"

definition detect_outliers ::
  "numerics \<Rightarrow> detector \<Rightarrow> detector \<Rightarrow> table \<Rightarrow> profile \<Rightarrow> string
     \<Rightarrow> error + outlier_result" where
  "detect_outliers num lof iso_forest df prof method =
     (if numeric_cols prof = [] then
        Inr \<lparr>outlier_indices = [], outlier_method_used = ''none'', outlier_count = 0\<rparr>
      else
        (let method1 = (if method = ''auto'' then auto_detector (length (numeric_cols prof))
                        else method)
         in case (if method1 = ''iqr'' then iqr_outliers num df (numeric_cols prof)
                  else if method1 = ''knn'' then knn_outliers lof df (numeric_cols prof)
                  else if method1 = ''isolation_forest''
                    then isolation_forest_outliers iso_forest df (numeric_cols prof)
                  else Inl (ValueError (''Unknown outlier detection method: '' @ method1))) of
              Inl e \<Rightarrow> Inl e
            | Inr found \<Rightarrow>
                Inr \<lparr>outlier_indices = found,
                     outlier_method_used = method1,
                     outlier_count = length found\<rparr>))"

section \<open>Statistical analysis (analysis.py)\<close>

record column_stats =
  stats_mean :: "real option"
  stats_std :: "real option"
  stats_min :: "real option"
  stats_max :: "real option"
  stats_median :: "real option"

record analysis_result =
  statistics :: "(string \<times> column_stats) list"
  correlations :: "(string \<times> (string \<times> real option) list) list option"
  categorical_summary :: "(string \<times> (string \<times> nat) list) list"

text \<open>A Python dict built from key-value pairs in order: a later pair replaces an earlier
  one with the same key.\<close>

definition dict_of :: "('k \<times> 'v) list \<Rightarrow> ('k \<times> 'v) list" where
  "dict_of kvs = fold (\<lambda>(k, v). AList.update k v) kvs []"

text \<open>
  The five numbers that the statistics loop stores for a numeric column:
  \<^verbatim>\<open>round(stats['mean'], 2)\<close>, and so for \<^verbatim>\<open>'std'\<close>, \<^verbatim>\<open>'min'\<close> and \<^verbatim>\<open>'max'\<close>
  of \<^verbatim>\<open>df[col].describe()\<close>, and \<^verbatim>\<open>round(df[col].median(), 2)\<close>. Pandas and Python
  compute them in float64: they are a parameter of the model, from the cells of the column.
\<close>

type_synonym summary = "real option list \<Rightarrow> column_stats"

text \<open>
  The statistics loop. \<^verbatim>\<open>describe()\<close> of a column of text labels has no entry
  \<^verbatim>\<open>'mean'\<close>, so reading it raises \<^verbatim>\<open>KeyError\<close>.
\<close>

fun statistics_loop ::
  "summary \<Rightarrow> table \<Rightarrow> string list \<Rightarrow> (string \<times> column_stats) list
     \<Rightarrow> error + (string \<times> column_stats) list" where
  "statistics_loop summ df [] acc = Inr acc"
| "statistics_loop summ df (col # rest) acc =
     (case df_get df col of
        Inl e \<Rightarrow> Inl e
      | Inr (ObjCol vs) \<Rightarrow> Inl (KeyError ''mean'')
      | Inr (NumCol vs) \<Rightarrow> statistics_loop summ df rest (AList.update col (summ vs) acc))"

text \<open>
  \<^verbatim>\<open>DataFrame.corr()\<close> belongs to pandas: a parameter of the model, from the columns of
  the numeric sub-frame to the columns of the correlation matrix (an entry is NaN where
  the coefficient is undefined). \<^verbatim>\<open>to_dict()\<close> turns the matrix into a dict of dicts.
\<close>

type_synonym correlation = "real option list list \<Rightarrow> real option list list"

definition to_dict :: "string list \<Rightarrow> real option list list \<Rightarrow> (string \<times> (string \<times> real option) list) list" where
  "to_dict names C = dict_of (zip names (map (\<lambda>vs. dict_of (zip names vs)) C))"

text \<open>
  \<^verbatim>\<open>Series.value_counts()\<close>: the distinct non-missing values with their counts, the most
  frequent first, equally frequent ones in the order of their first occurrence.
\<close>

definition value_counts :: "'a option list \<Rightarrow> ('a \<times> nat) list" where
  "value_counts vs =
     (let xs = observed vs
      in sort_key (\<lambda>(k, n). - int n) (map (\<lambda>k. (k, count_list xs k)) (rev (remdups (rev xs)))))"

text \<open>
  \<^verbatim>\<open>{str(k): int(v) for k, v in value_counts.items()}\<close> after \<^verbatim>\<open>head(10)\<close>. A text
  label is its own \<^verbatim>\<open>str\<close>; the \<^verbatim>\<open>str\<close> of a float is a parameter.
\<close>

fun top_values :: "(real \<Rightarrow> string) \<Rightarrow> column \<Rightarrow> (string \<times> nat) list" where
  "top_values float_str (ObjCol vs) = dict_of (take 10 (value_counts vs))"
| "top_values float_str (NumCol vs) =
     dict_of (map (\<lambda>(k, n). (float_str k, n)) (take 10 (value_counts vs)))"

fun categorical_loop ::
  "(real \<Rightarrow> string) \<Rightarrow> table \<Rightarrow> string list \<Rightarrow> string list \<Rightarrow> (string \<times> (string \<times> nat) list) list
     \<Rightarrow> error + (string \<times> (string \<times> nat) list) list" where
  "categorical_loop float_str df [] high acc = Inr acc"
| "categorical_loop float_str df (col # rest) high acc =
     (if col \<notin> set high then
        (case df_get df col of
           Inl e \<Rightarrow> Inl e
         | Inr c \<Rightarrow> categorical_loop float_str df rest high (AList.update col (top_values float_str c) acc))
      else categorical_loop float_str df rest high acc)"

definition analyze_data ::
  "summary \<Rightarrow> correlation \<Rightarrow> (real \<Rightarrow> string) \<Rightarrow> table \<Rightarrow> profile
     \<Rightarrow> error + analysis_result" where
  "analyze_data summ corr float_str df prof =
     (case statistics_loop summ df (numeric_cols prof) [] of
        Inl e \<Rightarrow> Inl e
      | Inr stats \<Rightarrow>
          (case (if length (numeric_cols prof) \<ge> 2 then
                   (case df_select df (numeric_cols prof) of
                      Inl e \<Rightarrow> Inl e
                    | Inr X \<Rightarrow>
                        (case as_float_array X of
                           Inl e \<Rightarrow> Inl e
                         | Inr A \<Rightarrow> Inr (Some (to_dict (numeric_cols prof) (corr A)))))
                 else Inr None) of
             Inl e \<Rightarrow> Inl e
           | Inr corr_dict \<Rightarrow>
               (case categorical_loop float_str df (categorical_cols prof) (high_cardinality prof) [] of
                  Inl e \<Rightarrow> Inl e
                | Inr summary \<Rightarrow>
                    Inr \<lparr>statistics = stats,
                         correlations = corr_dict,
                         categorical_summary = summary\<rparr>)))"

section \<open>Profiling (profiling.py)\<close>

text \<open>\<^verbatim>\<open>str.lower()\<close> on ASCII letters, and \<^verbatim>\<open>needle in haystack\<close> on strings.\<close>

definition lower_char :: "char \<Rightarrow> char" where
  "lower_char c =
     (let n = (of_char c :: nat) in if 65 \<le> n \<and> n \<le> 90 then char_of (n + 32) else c)"

definition lower :: "string \<Rightarrow> string" where
  "lower s = map lower_char s"

definition is_in :: "string \<Rightarrow> string \<Rightarrow> bool" where
  "is_in needle haystack = sublist needle haystack"

text \<open>
  \<^verbatim>\<open>round((missing_count / rows) * 100, 1)\<close> is computed in float64: a parameter of the
  model, from the two counts.
\<close>

type_synonym percentage = "nat \<Rightarrow> nat \<Rightarrow> real"

text \<open>The loop that fills \<^verbatim>\<open>missing\<close>; \<open>n\<close> is the row count of the frame.\<close>

fun missing_loop :: "percentage \<Rightarrow> nat \<Rightarrow> table \<Rightarrow> (string, real) alist \<Rightarrow> (string, real) alist" where
  "missing_loop pct n [] acc = acc"
| "missing_loop pct n ((col, c) # rest) acc =
     (let missing_count = n_missing c
      in if missing_count > 0
         then missing_loop pct n rest (DAList.update col (pct missing_count n) acc)
         else missing_loop pct n rest acc)"

definition is_number :: "column \<Rightarrow> bool" where
  "is_number c = (case c of NumCol _ \<Rightarrow> True | ObjCol _ \<Rightarrow> False)"

text \<open>\<^verbatim>\<open>Series.nunique()\<close>: the number of distinct non-missing values.\<close>

fun nunique :: "column \<Rightarrow> nat" where
  "nunique (NumCol vs) = length (remdups (observed vs))"
| "nunique (ObjCol vs) = length (remdups (observed vs))"

text \<open>The loop that fills \<^verbatim>\<open>high_cardinality\<close>, over the categorical columns.\<close>

fun high_cardinality_loop :: "nat \<Rightarrow> table \<Rightarrow> string list" where
  "high_cardinality_loop n [] = []"
| "high_cardinality_loop n ((col, c) # rest) =
     (let n_unique = nunique c;
          unique_ratio = (if n > 0 then real n_unique / real n else 0)
      in if n_unique > 50 \<or> (unique_ratio > 0.8 \<and> n_unique > 2)
         then col # high_cardinality_loop n rest
         else high_cardinality_loop n rest)"

text \<open>
  The frames of the model have no column of a datetime dtype, so
  \<^verbatim>\<open>select_dtypes(include=['datetime'])\<close> is empty and \<^verbatim>\<open>date_cols\<close> holds the
  columns found by name. The source raises nowhere; the result is given as a sum so that
  it can be compared with the contract.
\<close>

definition profile_data :: "percentage \<Rightarrow> table \<Rightarrow> error + profile" where
  "profile_data pct df =
     (let n = df_len df;
          names = map fst df;
          numeric = map fst (filter (\<lambda>(col, c). is_number c) df);
          categorical = filter (\<lambda>(col, c). \<not> is_number c) df
      in Inr \<lparr>rows = n,
              cols = length df,
              missing = missing_loop pct n df DAList.empty,
              numeric_cols = numeric,
              categorical_cols = map fst categorical,
              date_cols = filter (\<lambda>col. is_in ''date'' (lower col) \<or> is_in ''time'' (lower col)) names,
              high_cardinality = high_cardinality_loop n categorical,
              dimensionality = (if length numeric \<ge> 10 then ''high'' else ''low'')\<rparr>)"

section \<open>Notions of the specification\<close>

text \<open>The column is a numeric column of the frame; its cells.\<close>

definition numeric_in :: "table \<Rightarrow> string \<Rightarrow> bool" where
  "numeric_in df col = (case map_of df col of Some (NumCol vs) \<Rightarrow> True | _ \<Rightarrow> False)"

definition num_values :: "table \<Rightarrow> string \<Rightarrow> real option list" where
  "num_values df col = (case map_of df col of Some (NumCol vs) \<Rightarrow> vs | _ \<Rightarrow> [])"

text \<open>The column is in the frame and has a cell that is not missing; has no missing cell.\<close>

definition has_value :: "table \<Rightarrow> string \<Rightarrow> bool" where
  "has_value df col = (case map_of df col of None \<Rightarrow> False | Some c \<Rightarrow> n_missing c < n_rows c)"

definition fully_observed :: "table \<Rightarrow> string \<Rightarrow> bool" where
  "fully_observed df col = (case map_of df col of None \<Rightarrow> False | Some c \<Rightarrow> n_missing c = 0)"



section \<open>Example inputs\<close>

subsection \<open>Arithmetic without rounding\<close>

text \<open>
  Instances of the float64 parameters that compute exactly, to run the model on examples
  whose numbers float64 represents exactly. They are not what the package computes on
  other inputs.
\<close>

text \<open>
  The quantile by linear interpolation between the two nearest order statistics of the
  non-missing values, the default of \<^verbatim>\<open>Series.quantile(q)\<close>; none when there is no
  value.
\<close>

definition quantile_of :: "real option list \<Rightarrow> real \<Rightarrow> real option" where
  "quantile_of vs q =
     (let xs = sort (observed vs); n = length xs
      in if n = 0 then None
         else
           (let pos = real (n - 1) * q; lo = nat \<lfloor>pos\<rfloor>; frac = pos - real lo
            in if lo + 1 < n then Some (xs ! lo + (xs ! (lo + 1) - xs ! lo) * frac)
               else Some (xs ! lo)))"

fun exact_op :: "(real \<Rightarrow> real \<Rightarrow> real) \<Rightarrow> float64 \<Rightarrow> float64 \<Rightarrow> float64" where
  "exact_op f (Finite a) (Finite b) = Finite (f a b)"
| "exact_op f x y = NaN"

definition exact_numerics :: numerics where
  "exact_numerics =
     \<lparr>quantile = (\<lambda>vs q. case quantile_of vs q of None \<Rightarrow> NaN | Some x \<Rightarrow> Finite x),
      fsub = exact_op (\<lambda>a b. a - b),
      fadd = exact_op (\<lambda>a b. a + b),
      fmul = exact_op (\<lambda>a b. a * b)\<rparr>"


text \<open>
  Rounding of the exact value to \<open>n\<close> decimals: to the nearest multiple of
  \<open>10\<^sup>-\<^sup>n\<close>, a tie going to the even one.
\<close>

definition round_half_even :: "real \<Rightarrow> int" where
  "round_half_even x =
     (let f = \<lfloor>x\<rfloor>; d = x - of_int f
      in if d < 1 / 2 then f else if d > 1 / 2 then f + 1 else if even f then f else f + 1)"

definition exact_round :: "real \<Rightarrow> nat \<Rightarrow> real" where
  "exact_round x ndigits = of_int (round_half_even (x * 10 ^ ndigits)) / 10 ^ ndigits"

definition exact_percentage :: percentage where
  "exact_percentage missing_count n = exact_round (real missing_count / real n * 100) 1"

text \<open>Mean, sample standard deviation, minimum and maximum of the non-missing values.\<close>

definition mean_of :: "real option list \<Rightarrow> real option" where
  "mean_of vs =
     (let xs = observed vs
      in if xs = [] then None else Some (sum_list xs / real (length xs)))"

definition std_of :: "real option list \<Rightarrow> real option" where
  "std_of vs =
     (let xs = observed vs; n = length xs
      in if n < 2 then None
         else (let m = sum_list xs / real n
               in Some (sqrt (sum_list (map (\<lambda>x. (x - m)\<^sup>2) xs) / real (n - 1)))))"

definition min_of :: "real option list \<Rightarrow> real option" where
  "min_of vs = (let xs = observed vs in if xs = [] then None else Some (fold min (tl xs) (hd xs)))"

definition max_of :: "real option list \<Rightarrow> real option" where
  "max_of vs = (let xs = observed vs in if xs = [] then None else Some (fold max (tl xs) (hd xs)))"

definition exact_summary :: summary where
  "exact_summary vs =
     \<lparr>stats_mean = map_option (\<lambda>x. exact_round x 2) (mean_of vs),
      stats_std = map_option (\<lambda>x. exact_round x 2) (std_of vs),
      stats_min = map_option (\<lambda>x. exact_round x 2) (min_of vs),
      stats_max = map_option (\<lambda>x. exact_round x 2) (max_of vs),
      stats_median = map_option (\<lambda>x. exact_round x 2) (median_of vs)\<rparr>"

subsection \<open>Library calls\<close>

text \<open>
  Simple instances of the scikit-learn and pandas parameters, to run the model on
  examples: an imputer that drops the columns without any value (as
  \<^verbatim>\<open>KNNImputer\<close> does) and fills the others with their mean, detectors that flag no
  row, a correlation that is 1 everywhere.
\<close>

definition mean_imputer :: imputer where
  "mean_imputer A = Inr (map (\<lambda>vs. fillna vs (mean_of vs)) (filter (\<lambda>vs. observed vs \<noteq> []) A))"

definition no_outliers :: detector where
  "no_outliers X = Inr (map (\<lambda>r. 1) X)"

definition unit_corr :: correlation where
  "unit_corr A = map (\<lambda>vs. map (\<lambda>ws. Some 1) A) A"

definition plain_str :: "real \<Rightarrow> string" where
  "plain_str x = ''number''"

subsection \<open>Frames and profiles\<close>

text \<open>The frame and the profile of \<^verbatim>\<open>test_simple_imputation\<close> (test_cleaning.py).\<close>

definition people_df :: table where
  "people_df =
     [(''age'', NumCol [Some 25, Some 30, Some 35, None, Some 40]),
      (''income'', NumCol [Some 50000, Some 60000, None, Some 80000, Some 90000]),
      (''city'', ObjCol [Some ''NYC'', Some ''LA'', None, Some ''NYC'', Some ''LA''])]"

definition people_profile :: profile where
  "people_profile =
     \<lparr>rows = 5, cols = 3,
      missing = DAList.update ''city'' 20
                  (DAList.update ''income'' 20 (DAList.update ''age'' 20 DAList.empty)),
      numeric_cols = [''age'', ''income''],
      categorical_cols = [''city''],
      date_cols = [], high_cardinality = [], dimensionality = ''low''\<rparr>"

text \<open>
  Profiles of the same frame that report a given percentage for \<open>age\<close> alone, written by
  hand as the profiles of the tests are.
\<close>

definition age_profile :: "real \<Rightarrow> profile" where
  "age_profile pct =
     \<lparr>rows = 5, cols = 3, missing = DAList.update ''age'' pct DAList.empty,
      numeric_cols = [''age'', ''income''], categorical_cols = [''city''],
      date_cols = [], high_cardinality = [], dimensionality = ''low''\<rparr>"

text \<open>A profile without missing values and without numeric columns.\<close>

definition labels_profile :: profile where
  "labels_profile =
     \<lparr>rows = 5, cols = 1, missing = DAList.empty, numeric_cols = [],
      categorical_cols = [''city''],
      date_cols = [], high_cardinality = [], dimensionality = ''low''\<rparr>"



text \<open>A frame whose upper IQR bound is, without rounding, the largest cell.\<close>

definition rounding_df :: table where
  "rounding_df = [(''x'', NumCol [Some 3.6, Some 0.3, Some 1.2, Some 1.5])]"

definition rounding_profile :: profile where
  "rounding_profile =
     \<lparr>rows = 4, cols = 1, missing = DAList.empty,
      numeric_cols = [''x''], categorical_cols = [],
      date_cols = [], high_cardinality = [], dimensionality = ''low''\<rparr>"

text \<open>
  A frame with a numeric column \<open>a\<close> that misses half of its cells and a numeric column
  \<open>b\<close> that misses a quarter of them, and its profile: with the threshold 30, \<open>b\<close> is
  eligible and \<open>a\<close> is skipped.
\<close>

definition sparse_df :: table where
  "sparse_df =
     [(''a'', NumCol [Some 1, None, None, Some 4]),
      (''b'', NumCol [Some 1, Some 2, Some 3, None])]"

definition sparse_profile :: profile where
  "sparse_profile =
     \<lparr>rows = 4, cols = 2,
      missing = DAList.update ''b'' 25 (DAList.update ''a'' 50 DAList.empty),
      numeric_cols = [''a'', ''b''], categorical_cols = [],
      date_cols = [], high_cardinality = [], dimensionality = ''low''\<rparr>"

text \<open>A frame with a numeric column and a column of labels that have no value at all.\<close>

definition hollow_df :: table where
  "hollow_df =
     [(''x'', NumCol [None, None]),
      (''y'', NumCol [Some 1, Some 2]),
      (''z'', ObjCol [None, None])]"

definition hollow_profile :: profile where
  "hollow_profile =
     \<lparr>rows = 2, cols = 3,
      missing = DAList.update ''z'' 100 (DAList.update ''x'' 100 DAList.empty),
      numeric_cols = [''x'', ''y''], categorical_cols = [''z''],
      date_cols = [], high_cardinality = [], dimensionality = ''low''\<rparr>"

text \<open>The frame and the profile of \<^verbatim>\<open>test_correlation_analysis\<close> (test_analysis.py).\<close>

definition corr_df :: table where
  "corr_df =
     [(''x'', NumCol [Some 1, Some 2, Some 3, Some 4, Some 5]),
      (''y'', NumCol [Some 2, Some 4, Some 6, Some 8, Some 10]),
      (''z'', NumCol [Some 5, Some 4, Some 3, Some 2, Some 1])]"

definition corr_profile :: profile where
  "corr_profile =
     \<lparr>rows = 5, cols = 3, missing = DAList.empty,
      numeric_cols = [''x'', ''y'', ''z''], categorical_cols = [],
      date_cols = [], high_cardinality = [], dimensionality = ''low''\<rparr>"

section \<open>Facts about the model\<close>

lemma items_filter: "items (DAList.filter P d) = filter P (items d)"
  by (simp add: items_def DAList.filter.rep_eq)

lemma items_cols_to_impute:
  "items (cols_to_impute prof thr) = filter (\<lambda>(col, pct). pct \<le> thr) (items (missing prof))"
  by (simp add: cols_to_impute_def items_filter)

lemma items_skipped:
  "items (skipped prof thr) = filter (\<lambda>(col, pct). pct > thr) (items (missing prof))"
  by (simp add: skipped_def items_filter)

lemma items_update: "items (DAList.update k v d) = AList.update k v (items d)"
  by (simp add: items_def DAList.update.rep_eq)

lemma items_empty: "items DAList.empty = []"
  by (simp add: items_def DAList.empty.rep_eq)

lemma distinct_keys: "distinct (keys d)"
  by (simp add: keys_def items_def)

lemma contains_keys: "contains d k \<longleftrightarrow> k \<in> set (keys d)"
  by (simp add: contains_def keys_def items_def DAList.lookup.rep_eq map_of_eq_None_iff)

lemma py_max_Max: "xs \<noteq> [] \<Longrightarrow> py_max xs = Max (set xs)"
  by (cases xs) (simp_all add: py_max_def Max.set_eq_fold del: set_simps)

lemma items_people_profile:
  "items (missing people_profile) = [(''age'', 20), (''income'', 20), (''city'', 20)]"
  by (simp add: people_profile_def items_update items_empty)

lemma people_select:
  "df_select people_df (numeric_cols people_profile) =
     Inr [NumCol [Some 25, Some 30, Some 35, None, Some 40],
          NumCol [Some 50000, Some 60000, None, Some 80000, Some 90000]]"
  by (simp add: people_df_def people_profile_def df_get_def)

lemma people_dropna:
  "dropna_index (df_len people_df)
     [NumCol [Some 25, Some 30, Some 35, None, Some 40],
      NumCol [Some 50000, Some 60000, None, Some 80000, Some 90000]] = [0, 1, 4]"
  by code_simp

lemma df_get_numeric: "numeric_in df col \<Longrightarrow> df_get df col = Inr (NumCol (num_values df col))"
  by (auto simp: numeric_in_def df_get_def num_values_def split: option.splits column.splits)










lemma statistics_loop_returns:
  "list_all (numeric_in df) names \<Longrightarrow> \<exists>stats. statistics_loop summ df names acc = Inr stats"
proof (induction names arbitrary: acc)
  case Nil
  then show ?case by simp
next
  case (Cons col rest)
  then have n: "numeric_in df col" and r: "list_all (numeric_in df) rest" by simp_all
  show ?case
    using Cons.IH [OF r] by (simp add: df_get_numeric [OF n])
qed

lemma df_select_numeric:
  "list_all (numeric_in df) names \<Longrightarrow>
   df_select df names = Inr (map (\<lambda>col. NumCol (num_values df col)) names)"
  by (induction names) (simp_all add: df_get_numeric)

lemma as_float_array_NumCol: "as_float_array (map (\<lambda>col. NumCol (f col)) names) = Inr (map f names)"
  by (induction names) simp_all

lemma categorical_loop_returns:
  "list_all (\<lambda>col. col \<in> set high \<or> map_of df col \<noteq> None) names \<Longrightarrow>
   \<exists>summary. categorical_loop fs df names high acc = Inr summary"
proof (induction names arbitrary: acc)
  case Nil
  then show ?case by simp
next
  case (Cons col rest)
  then have r: "list_all (\<lambda>col. col \<in> set high \<or> map_of df col \<noteq> None) rest"
    and c: "col \<in> set high \<or> map_of df col \<noteq> None" by simp_all
  show ?case
    using Cons.IH [OF r] c by (auto simp: df_get_def split: option.splits)
qed

lemma corr_numeric: "list_all (numeric_in corr_df) (numeric_cols corr_profile)"
  by (simp add: corr_df_def corr_profile_def numeric_in_def)

lemma corr_to_dict:
  "to_dict (numeric_cols corr_profile)
     (unit_corr (map (num_values corr_df) (numeric_cols corr_profile))) =
   [(''x'', [(''x'', Some 1), (''y'', Some 1), (''z'', Some 1)]),
    (''y'', [(''x'', Some 1), (''y'', Some 1), (''z'', Some 1)]),
    (''z'', [(''x'', Some 1), (''y'', Some 1), (''z'', Some 1)])]"
  by code_simp

text \<open>The example profiles are the profiles of the example frames.\<close>

lemma profile_data_people_df: "profile_data exact_percentage people_df = Inr people_profile"
  by code_simp

lemma profile_data_sparse_df: "profile_data exact_percentage sparse_df = Inr sparse_profile"
  by code_simp

lemma profile_data_hollow_df: "profile_data exact_percentage hollow_df = Inr hollow_profile"
  by code_simp

lemma profile_data_rounding_df: "profile_data exact_percentage rounding_df = Inr rounding_profile"
  by code_simp

subsection \<open>Cells\<close>

lemma filter_None_Nil: "filter (\<lambda>v. v = None) vs = [] \<longleftrightarrow> None \<notin> set vs"
  by (induction vs) auto

lemma full_NumCol: "n_missing (NumCol vs) = 0 \<longleftrightarrow> None \<notin> set vs"
  by (simp add: n_missing_def filter_map comp_def filter_None_Nil)

lemma full_ObjCol: "n_missing (ObjCol vs) = 0 \<longleftrightarrow> None \<notin> set vs"
  by (simp add: n_missing_def filter_map comp_def filter_None_Nil)

lemma some_value_iff:
  "length (filter (\<lambda>v. v = None) vs) < length vs \<longleftrightarrow> observed vs \<noteq> []"
  by (induction vs) (auto simp: less_Suc_eq_le)

lemma value_NumCol: "n_missing (NumCol vs) < n_rows (NumCol vs) \<longleftrightarrow> observed vs \<noteq> []"
  by (simp add: n_missing_def n_rows_def filter_map comp_def some_value_iff)

lemma value_ObjCol: "n_missing (ObjCol vs) < n_rows (ObjCol vs) \<longleftrightarrow> observed vs \<noteq> []"
  by (simp add: n_missing_def n_rows_def filter_map comp_def some_value_iff)

lemma n_rows_simps: "n_rows (NumCol vs) = length vs" "n_rows (ObjCol ws) = length ws"
  by (simp_all add: n_rows_def)

lemma fillna_Some_full: "None \<notin> set (fillna vs (Some m))"
  by (auto simp: fillna_def split: option.splits)

lemma fillna_full: "None \<notin> set vs \<Longrightarrow> fillna vs f = vs"
  by (induction vs) (auto simp: fillna_def split: option.splits)

lemma observed_fillna: "observed vs \<noteq> [] \<Longrightarrow> observed (fillna vs f) \<noteq> []"
  by (induction vs) (auto simp: fillna_def split: option.splits)

lemma length_fillna: "length (fillna vs f) = length vs"
  by (simp add: fillna_def)

lemma sort_Nil_iff: "sort xs = [] \<longleftrightarrow> xs = []"
  by (metis length_sort length_0_conv)

lemma median_of_Some: "observed vs \<noteq> [] \<Longrightarrow> median_of vs \<noteq> None"
  by (simp add: median_of_def Let_def sort_Nil_iff del: not_None_eq)

lemma fold_max_mem: "fold max ns (n::nat) \<in> set (n # ns)"
proof (induction ns arbitrary: n)
  case Nil
  then show ?case by simp
next
  case (Cons a ns)
  have "max a n = a \<or> max a n = n" by (simp add: max_def)
  with Cons [of "max a n"] show ?case by auto
qed

lemma fold_max_ge: "n \<le> fold max ns (n::nat)"
proof (induction ns arbitrary: n)
  case Nil
  then show ?case by simp
next
  case (Cons a ns)
  have "n \<le> max a n" by simp
  also have "\<dots> \<le> fold max ns (max a n)" by (rule Cons)
  finally show ?case by simp
qed

lemma fold_max_ge_mem: "x \<in> set ns \<Longrightarrow> x \<le> fold max ns (n::nat)"
proof (induction ns arbitrary: n)
  case Nil
  then show ?case by simp
next
  case (Cons a ns)
  show ?case
  proof (cases "x = a")
    case True
    have "a \<le> max a n" by simp
    also have "\<dots> \<le> fold max ns (max a n)" by (rule fold_max_ge)
    finally show ?thesis using True by simp
  next
    case False
    with Cons show ?thesis by simp
  qed
qed

lemma mode_of_nonempty:
  assumes "observed vs \<noteq> []"
  shows "mode_of vs \<noteq> []"
proof -
  let ?xs = "observed vs"
  let ?m = "fold max (map (count_list ?xs) ?xs) 0"
  obtain x where x: "x \<in> set ?xs" using assms by (cases ?xs) auto
  then have "0 < count_list ?xs x" using count_list_0_iff [of ?xs x] by simp
  moreover have "count_list ?xs x \<le> ?m"
    using x by (intro fold_max_ge_mem) simp
  ultimately have "?m \<noteq> 0" by simp
  moreover have "?m \<in> set (0 # map (count_list ?xs) ?xs)" by (rule fold_max_mem)
  ultimately obtain y where "y \<in> set ?xs" "count_list ?xs y = ?m" by auto
  then have "filter (\<lambda>x. count_list ?xs x = ?m) ?xs \<noteq> []"
    unfolding filter_empty_conv by blast
  then show ?thesis
    by (simp add: mode_of_def Let_def sort_Nil_iff filter_empty_conv)
qed

subsection \<open>Columns\<close>

lemma mode_fill_full: "n_missing c < n_rows c \<Longrightarrow> n_missing (mode_fill c) = 0"
proof (cases c)
  case (NumCol vs)
  assume "n_missing c < n_rows c"
  with NumCol have "mode_of vs \<noteq> []"
    by (simp add: value_NumCol mode_of_nonempty)
  with NumCol show ?thesis
    by (auto simp: full_NumCol fillna_Some_full split: list.splits)
next
  case (ObjCol vs)
  assume "n_missing c < n_rows c"
  with ObjCol have "mode_of vs \<noteq> []"
    by (simp add: value_ObjCol mode_of_nonempty)
  with ObjCol show ?thesis
    by (auto simp: full_ObjCol fillna_Some_full split: list.splits)
qed

lemma mode_fill_keeps_full: "n_missing c = 0 \<Longrightarrow> n_missing (mode_fill c) = 0"
  by (cases c) (auto simp: full_NumCol full_ObjCol fillna_full split: list.splits)

lemma n_rows_mode_fill: "n_rows (mode_fill c) = n_rows c"
  by (cases c) (auto simp: n_rows_simps length_fillna split: list.splits)

lemma mode_fill_keeps_value: "n_missing c < n_rows c \<Longrightarrow> n_missing (mode_fill c) < n_rows (mode_fill c)"
  by (simp add: mode_fill_full n_rows_mode_fill)

lemma median_fill_full:
  assumes "n_missing (NumCol vs) < n_rows (NumCol vs)"
  shows "n_missing (NumCol (fillna vs (median_of vs))) = 0"
proof -
  obtain m where "median_of vs = Some m"
    using assms median_of_Some [of vs] by (auto simp: value_NumCol)
  then show ?thesis by (simp add: full_NumCol fillna_Some_full)
qed

lemma fillna_keeps_full:
  "n_missing (NumCol vs) = 0 \<Longrightarrow> n_missing (NumCol (fillna vs f)) = 0"
  by (simp add: full_NumCol fillna_full)

lemma fillna_keeps_value:
  "n_missing (NumCol vs) < n_rows (NumCol vs) \<Longrightarrow>
   n_missing (NumCol (fillna vs f)) < n_rows (NumCol (fillna vs f))"
  by (simp add: value_NumCol observed_fillna)

subsection \<open>Frames\<close>

lemma map_of_df_set: "map_of (df_set df k c) col = (if col = k then Some c else map_of df col)"
  by (simp add: df_set_def update_conv')

lemma df_get_Inr: "df_get df col = Inr c \<longleftrightarrow> map_of df col = Some c"
  by (simp add: df_get_def split: option.splits)

lemma simple_numeric_inv:
  "simple_numeric ks miss df = Inr df1 \<Longrightarrow>
   (fully_observed df col \<longrightarrow> fully_observed df1 col)
   \<and> (has_value df col \<longrightarrow>
        has_value df1 col \<and> (col \<in> set ks \<and> contains miss col \<longrightarrow> fully_observed df1 col))"
proof (induction ks arbitrary: df)
  case Nil
  then show ?case by simp
next
  case (Cons k rest)
  show ?case
  proof (cases "contains miss k")
    case False
    with Cons.prems have "simple_numeric rest miss df = Inr df1" by simp
    from Cons.IH [OF this] False show ?thesis by auto
  next
    case True
    with Cons.prems obtain c where gc: "map_of df k = Some c"
      by (auto simp: df_get_def split: option.splits)
    show ?thesis
    proof (cases c)
      case (ObjCol ws)
      with True gc Cons.prems have e: "observed ws = []"
        and r: "simple_numeric rest miss df = Inr df1"
        by (auto simp: df_get_def split: if_splits)
      have "\<not> has_value df k"
        using gc ObjCol e by (simp add: has_value_def value_ObjCol)
      with Cons.IH [OF r] show ?thesis by auto
    next
      case (NumCol vs)
      with gc have g: "map_of df k = Some (NumCol vs)" by simp
      with True Cons.prems have
        r: "simple_numeric rest miss (df_set df k (NumCol (fillna vs (median_of vs)))) = Inr df1"
        by (simp add: df_get_def)
      let ?df = "df_set df k (NumCol (fillna vs (median_of vs)))"
      note ih = Cons.IH [OF r]
      have f: "fully_observed df col \<Longrightarrow> fully_observed ?df col"
        using g by (auto simp: fully_observed_def map_of_df_set fillna_keeps_full)
      have h: "has_value df col \<Longrightarrow> has_value ?df col"
        using g by (auto simp: has_value_def map_of_df_set fillna_keeps_value)
      have m: "has_value df col \<Longrightarrow> col = k \<Longrightarrow> fully_observed ?df col"
        using g by (auto simp: has_value_def fully_observed_def map_of_df_set median_fill_full)
      show ?thesis using ih f h m by auto
    qed
  qed
qed

lemma categorical_mode_inv:
  "categorical_mode ks miss df = Inr df1 \<Longrightarrow>
   (fully_observed df col \<longrightarrow> fully_observed df1 col)
   \<and> (has_value df col \<longrightarrow>
        has_value df1 col \<and> (col \<in> set ks \<and> contains miss col \<longrightarrow> fully_observed df1 col))"
proof (induction ks arbitrary: df)
  case Nil
  then show ?case by simp
next
  case (Cons k rest)
  show ?case
  proof (cases "contains miss k")
    case False
    with Cons.prems have "categorical_mode rest miss df = Inr df1" by simp
    from Cons.IH [OF this] False show ?thesis by auto
  next
    case True
    with Cons.prems obtain c where g: "map_of df k = Some c"
      and r: "categorical_mode rest miss (df_set df k (mode_fill c)) = Inr df1"
      by (auto simp: df_get_def split: option.splits)
    let ?df = "df_set df k (mode_fill c)"
    note ih = Cons.IH [OF r]
    have f: "fully_observed df col \<Longrightarrow> fully_observed ?df col"
      using g by (auto simp: fully_observed_def map_of_df_set mode_fill_keeps_full)
    have h: "has_value df col \<Longrightarrow> has_value ?df col"
      using g by (auto simp: has_value_def map_of_df_set mode_fill_keeps_value)
    have m: "has_value df col \<Longrightarrow> col = k \<Longrightarrow> fully_observed ?df col"
      using g by (auto simp: has_value_def fully_observed_def map_of_df_set mode_fill_full)
    show ?thesis using ih f h m by auto
  qed
qed

lemma df_store_inv:
  "df_store df ks B = Inr df1 \<Longrightarrow> list_all (\<lambda>vs. None \<notin> set vs) B \<Longrightarrow>
   (col \<in> set ks \<or> fully_observed df col \<longrightarrow> fully_observed df1 col)
   \<and> (col \<notin> set ks \<longrightarrow> map_of df1 col = map_of df col)"
proof (induction df ks B rule: df_store.induct)
  case (1 df)
  then show ?case by simp
next
  case (2 df k rest vs A)
  from "2.prems" have len: "length vs = df_len df"
    and r: "df_store (df_set df k (NumCol vs)) rest A = Inr df1"
    and full: "None \<notin> set vs" and A: "list_all (\<lambda>vs. None \<notin> set vs) A"
    by (auto split: if_splits)
  note ih = "2.IH" [OF len r A]
  have "col = k \<or> fully_observed df col \<Longrightarrow> fully_observed (df_set df k (NumCol vs)) col"
    using full by (auto simp: fully_observed_def map_of_df_set full_NumCol)
  with ih show ?case by (auto simp: map_of_df_set)
qed simp_all


lemma eligible_contains:
  "(col, pct) \<in> set (items (missing prof)) \<Longrightarrow> pct \<le> thr \<Longrightarrow>
   contains (cols_to_impute prof thr) col"
  by (force simp: contains_keys keys_def items_cols_to_impute)

lemma mean_imputer_complete: "mean_imputer A = Inr B \<Longrightarrow> list_all (\<lambda>vs. None \<notin> set vs) B"
  by (auto simp: mean_imputer_def list_all_iff mean_of_def Let_def fillna_Some_full)

lemma people_knn:
  "impute_missing mean_imputer people_df people_profile ''knn'' 30 =
     Inr ([(''age'', NumCol [Some 25, Some 30, Some 35, Some (65 / 2), Some 40]),
           (''income'', NumCol [Some 50000, Some 60000, Some 70000, Some 80000, Some 90000]),
           (''city'', ObjCol [Some ''NYC'', Some ''LA'', Some ''LA'', Some ''NYC'', Some ''LA''])],
          \<lparr>imputed_columns = [''age'', ''income'', ''city''], skipped_columns = [],
           method_used = ''knn''\<rparr>)"
  by code_simp

lemma items_sparse_profile:
  "items (missing sparse_profile) = [(''a'', 50), (''b'', 25)]"
  by (simp add: sparse_profile_def items_update items_empty)

lemma sparse_mean:
  "mean_imputer [[Some 1, None, None, Some 4], [Some 1, Some 2, Some 3, None]] =
     Inr [[Some 1, Some (5 / 2), Some (5 / 2), Some 4], [Some 1, Some 2, Some 3, Some 2]]"
  by code_simp

lemma skipped_not_eligible:
  assumes "(col, pct) \<in> set (items (missing prof))" and "pct > thr"
  shows "\<not> contains (cols_to_impute prof thr) col"
proof
  assume "contains (cols_to_impute prof thr) col"
  then obtain p where p: "(col, p) \<in> set (items (missing prof))" "p \<le> thr"
    by (auto simp: contains_keys keys_def items_cols_to_impute)
  have "distinct (map fst (items (missing prof)))"
    using distinct_keys [of "missing prof"] by (simp add: keys_def)
  with p(1) assms(1) have "p = pct" by (metis eq_key_imp_eq_value)
  with p(2) assms(2) show False by simp
qed

lemma simple_numeric_frame:
  "simple_numeric ks miss df = Inr df1 \<Longrightarrow> \<not> contains miss col \<Longrightarrow> map_of df1 col = map_of df col"
proof (induction ks arbitrary: df)
  case Nil
  then show ?case by simp
next
  case (Cons k rest)
  show ?case
  proof (cases "contains miss k")
    case False
    with Cons show ?thesis by simp
  next
    case True
    with Cons.prems consider
        (labels) "simple_numeric rest miss df = Inr df1"
      | (number) vs where
          "simple_numeric rest miss (df_set df k (NumCol (fillna vs (median_of vs)))) = Inr df1"
      by (auto simp: df_get_def split: option.splits column.splits if_splits)
    then show ?thesis
    proof cases
      case labels
      from Cons.IH [OF this Cons.prems(2)] show ?thesis .
    next
      case number
      from True Cons.prems(2) have "col \<noteq> k" by auto
      with Cons.IH [OF number Cons.prems(2)] show ?thesis by (simp add: map_of_df_set)
    qed
  qed
qed

lemma categorical_mode_frame:
  "categorical_mode ks miss df = Inr df1 \<Longrightarrow> \<not> contains miss col \<Longrightarrow> map_of df1 col = map_of df col"
proof (induction ks arbitrary: df)
  case Nil
  then show ?case by simp
next
  case (Cons k rest)
  show ?case
  proof (cases "contains miss k")
    case False
    with Cons show ?thesis by simp
  next
    case True
    with Cons.prems obtain c where
      r: "categorical_mode rest miss (df_set df k (mode_fill c)) = Inr df1"
      by (auto simp: df_get_def split: option.splits)
    from True Cons.prems(2) have "col \<noteq> k" by auto
    with Cons.IH [OF r Cons.prems(2)] show ?thesis by (simp add: map_of_df_set)
  qed
qed

lemma items_age_profile: "items (missing (age_profile pct)) = [(''age'', pct)]"
  by (simp add: age_profile_def items_update items_empty)

lemma age_eligible:
  "pct \<le> thr \<Longrightarrow>
   Max {p. \<exists>col. (col, p) \<in> set (items (missing (age_profile pct))) \<and> p \<le> thr} = pct"
proof -
  assume "pct \<le> thr"
  then have "{p. \<exists>col. (col, p) \<in> set (items (missing (age_profile pct))) \<and> p \<le> thr} = {pct}"
    by (auto simp: items_age_profile)
  then show ?thesis by simp
qed

lemma age_simple:
  "map_sum id (\<lambda>(t, r). method_used r)
     (impute_missing mean_imputer people_df (age_profile (49 / 10)) ''simple'' 30) = Inr ''simple''"
  by code_simp

lemma age_knn:
  "map_sum id (\<lambda>(t, r). method_used r)
     (impute_missing mean_imputer people_df (age_profile 5) ''knn'' 30) = Inr ''knn''"
  "map_sum id (\<lambda>(t, r). method_used r)
     (impute_missing mean_imputer people_df (age_profile (149 / 10)) ''knn'' 30) = Inr ''knn''"
  by code_simp+

lemma age_random_forest:
  "map_sum id (\<lambda>(t, r). method_used r)
     (impute_missing mean_imputer people_df (age_profile 15) ''random_forest'' 30) =
   Inr ''random_forest''"
  by code_simp

section \<open>Imputation: method selection and errors\<close>

text \<open>
  C10. \<^verbatim>\<open>impute_missing\<close> returns before it looks at \<open>method\<close> when
  \<^verbatim>\<open>profile['missing']\<close> is empty, and when every entry of it is above the threshold:
  the table is returned as it is, with method \<^verbatim>\<open>'none'\<close>, for every method string, a
  recognised one or not. \<^verbatim>\<open>detect_outliers\<close> does the same when the profile lists no
  numeric column.
\<close>

theorem early_return_ignores_method:
  "(items (missing prof) = [] \<longrightarrow>
      impute_missing knn df prof method thr =
        Inr (df, \<lparr>imputed_columns = [], skipped_columns = [], method_used = ''none''\<rparr>))
   \<and> (list_all (\<lambda>(col, pct). pct > thr) (items (missing prof)) \<longrightarrow>
      impute_missing knn df prof method thr =
        Inr (df, \<lparr>imputed_columns = [], skipped_columns = keys (missing prof),
                  method_used = ''none''\<rparr>))
   \<and> (numeric_cols prof = [] \<longrightarrow>
      detect_outliers num lof isf df prof method =
        Inr \<lparr>outlier_indices = [], outlier_method_used = ''none'', outlier_count = 0\<rparr>)"
proof (intro conjI impI)
  assume "items (missing prof) = []"
  then show "impute_missing knn df prof method thr =
        Inr (df, \<lparr>imputed_columns = [], skipped_columns = [], method_used = ''none''\<rparr>)"
    by (simp add: impute_missing_def)
next
  assume a: "list_all (\<lambda>(col, pct). pct > thr) (items (missing prof))"
  have e: "items (cols_to_impute prof thr) = []"
    using a by (auto simp: items_cols_to_impute filter_empty_conv list_all_iff)
  have "filter (\<lambda>(col, pct). pct > thr) (items (missing prof)) = items (missing prof)"
    using a by (auto simp: list_all_iff)
  then have s: "keys (skipped prof thr) = keys (missing prof)"
    by (simp add: keys_def items_skipped)
  show "impute_missing knn df prof method thr =
        Inr (df, \<lparr>imputed_columns = [], skipped_columns = keys (missing prof),
                  method_used = ''none''\<rparr>)"
    using e s by (auto simp: impute_missing_def keys_def)
next
  assume "numeric_cols prof = []"
  then show "detect_outliers num lof isf df prof method =
        Inr \<lparr>outlier_indices = [], outlier_method_used = ''none'', outlier_count = 0\<rparr>"
    by (simp add: detect_outliers_def)
qed

theorem early_return_ignores_method_witness:
  "items (missing labels_profile) = []
   \<and> impute_missing mean_imputer people_df labels_profile ''bogus'' 30 =
       Inr (people_df, \<lparr>imputed_columns = [], skipped_columns = [], method_used = ''none''\<rparr>)
   \<and> list_all (\<lambda>(col, pct). pct > 10) (items (missing people_profile))
   \<and> impute_missing mean_imputer people_df people_profile ''bogus'' 10 =
       Inr (people_df, \<lparr>imputed_columns = [], skipped_columns = [''age'', ''income'', ''city''],
                        method_used = ''none''\<rparr>)
   \<and> numeric_cols labels_profile = []
   \<and> detect_outliers exact_numerics no_outliers no_outliers people_df labels_profile ''bogus'' =
       Inr \<lparr>outlier_indices = [], outlier_method_used = ''none'', outlier_count = 0\<rparr>"
  using early_return_ignores_method
          [of labels_profile mean_imputer people_df "''bogus''" 30 exact_numerics no_outliers no_outliers]
        early_return_ignores_method
          [of people_profile mean_imputer people_df "''bogus''" 10 exact_numerics no_outliers no_outliers]
  by (simp add: items_people_profile keys_def labels_profile_def items_empty)

text \<open>
  C5 (as amended). Once the early returns are passed, an unrecognised method string makes
  both functions raise \<^verbatim>\<open>ValueError\<close> (the contract's InvalidMethodError):
  \<^verbatim>\<open>impute_missing\<close> when at least one entry of \<^verbatim>\<open>profile['missing']\<close> is at or
  below the threshold and the method is none of auto, simple, knn, random_forest;
  \<^verbatim>\<open>detect_outliers\<close> when the profile lists a numeric column and the method is none of
  auto, iqr, knn, isolation_forest. The counterexample shows that the claim without these
  conditions fails: with an empty \<^verbatim>\<open>profile['missing']\<close> and no numeric column, both
  calls return a \<^verbatim>\<open>'none'\<close> result for the method \<^verbatim>\<open>'bogus'\<close>.
\<close>

theorem unknown_method_raises:
  "(method \<notin> {''auto'', ''simple'', ''knn'', ''random_forest''} \<and>
      list_ex (\<lambda>(col, pct). pct \<le> thr) (items (missing prof)) \<longrightarrow>
      impute_missing knn df prof method thr =
        Inl (ValueError (''Unknown imputation method: '' @ method)))
   \<and> (method \<notin> {''auto'', ''iqr'', ''knn'', ''isolation_forest''} \<and> numeric_cols prof \<noteq> [] \<longrightarrow>
      detect_outliers num lof isf df prof method =
        Inl (ValueError (''Unknown outlier detection method: '' @ method)))"
proof (intro conjI impI)
  assume a: "method \<notin> {''auto'', ''simple'', ''knn'', ''random_forest''} \<and>
      list_ex (\<lambda>(col, pct). pct \<le> thr) (items (missing prof))"
  then have "items (cols_to_impute prof thr) \<noteq> []" "items (missing prof) \<noteq> []"
    by (auto simp: items_cols_to_impute filter_empty_conv list_ex_iff)
  with a show "impute_missing knn df prof method thr =
        Inl (ValueError (''Unknown imputation method: '' @ method))"
    by (simp add: impute_missing_def)
next
  assume "method \<notin> {''auto'', ''iqr'', ''knn'', ''isolation_forest''} \<and> numeric_cols prof \<noteq> []"
  then show "detect_outliers num lof isf df prof method =
        Inl (ValueError (''Unknown outlier detection method: '' @ method))"
    by (simp add: detect_outliers_def)
qed

theorem unknown_method_raises_witness:
  "''bogus'' \<notin> {''auto'', ''simple'', ''knn'', ''random_forest''}
   \<and> list_ex (\<lambda>(col, pct). pct \<le> 30) (items (missing people_profile))
   \<and> impute_missing mean_imputer people_df people_profile ''bogus'' 30 =
        Inl (ValueError ''Unknown imputation method: bogus'')
   \<and> ''bogus'' \<notin> {''auto'', ''iqr'', ''knn'', ''isolation_forest''}
   \<and> numeric_cols people_profile \<noteq> []
   \<and> detect_outliers exact_numerics no_outliers no_outliers people_df people_profile ''bogus'' =
        Inl (ValueError ''Unknown outlier detection method: bogus'')"
  using unknown_method_raises
          [of "''bogus''" 30 people_profile mean_imputer people_df exact_numerics no_outliers no_outliers]
  by (simp add: items_people_profile) (simp add: people_profile_def)

theorem unknown_method_counterexample:
  "''bogus'' \<notin> {''auto'', ''simple'', ''knn'', ''random_forest''}
   \<and> impute_missing mean_imputer people_df labels_profile ''bogus'' 30 =
       Inr (people_df, \<lparr>imputed_columns = [], skipped_columns = [], method_used = ''none''\<rparr>)
   \<and> ''bogus'' \<notin> {''auto'', ''iqr'', ''knn'', ''isolation_forest''}
   \<and> detect_outliers exact_numerics no_outliers no_outliers people_df labels_profile ''bogus'' =
       Inr \<lparr>outlier_indices = [], outlier_method_used = ''none'', outlier_count = 0\<rparr>"
  by (simp add: impute_missing_def detect_outliers_def labels_profile_def items_empty)

section \<open>Imputation: the auto method\<close>

text \<open>
  C4. When \<^verbatim>\<open>impute_missing\<close> is called with method \<^verbatim>\<open>'auto'\<close> and at least one column
  is eligible, the call behaves as the call with the method resolved from the largest
  missing-percentage among the eligible columns only: below 5 it is simple, from 5 to
  below 15 it is knn, from 15 on it is random_forest; and a returned result reports the
  resolved method as \<^verbatim>\<open>method_used\<close>.
\<close>

theorem auto_selects_by_max_eligible:
  assumes "list_ex (\<lambda>(col, pct). pct \<le> thr) (items (missing prof))"
  shows "let mx = Max {pct. \<exists>col. (col, pct) \<in> set (items (missing prof)) \<and> pct \<le> thr};
             resolved = (if mx < 5 then ''simple'' else if mx < 15 then ''knn'' else ''random_forest'')
         in impute_missing knn df prof ''auto'' thr = impute_missing knn df prof resolved thr
            \<and> (\<forall>df' res. impute_missing knn df prof ''auto'' thr = Inr (df', res)
                 \<longrightarrow> method_used res = resolved)"
proof -
  let ?el = "items (cols_to_impute prof thr)"
  have ne: "?el \<noteq> []" "items (missing prof) \<noteq> []"
    using assms by (auto simp: items_cols_to_impute filter_empty_conv list_ex_iff)
  have "set (dict_values (cols_to_impute prof thr)) =
        {pct. \<exists>col. (col, pct) \<in> set (items (missing prof)) \<and> pct \<le> thr}"
    by (force simp: dict_values_def items_cols_to_impute)
  moreover have "dict_values (cols_to_impute prof thr) \<noteq> []"
    using ne by (simp add: dict_values_def)
  ultimately have mx: "py_max (dict_values (cols_to_impute prof thr)) =
        Max {pct. \<exists>col. (col, pct) \<in> set (items (missing prof)) \<and> pct \<le> thr}"
    by (simp add: py_max_Max)
  show ?thesis
    using ne mx
    by (auto simp: impute_missing_def Let_def auto_method_def split: sum.splits)
qed

theorem auto_selects_by_max_eligible_witness:
  "list_ex (\<lambda>(col, pct). pct \<le> 30) (items (missing (age_profile (49 / 10))))
   \<and> map_sum id (\<lambda>(t, r). method_used r)
        (impute_missing mean_imputer people_df (age_profile (49 / 10)) ''auto'' 30) = Inr ''simple''
   \<and> list_ex (\<lambda>(col, pct). pct \<le> 30) (items (missing (age_profile 5)))
   \<and> map_sum id (\<lambda>(t, r). method_used r)
        (impute_missing mean_imputer people_df (age_profile 5) ''auto'' 30) = Inr ''knn''
   \<and> list_ex (\<lambda>(col, pct). pct \<le> 30) (items (missing (age_profile (149 / 10))))
   \<and> map_sum id (\<lambda>(t, r). method_used r)
        (impute_missing mean_imputer people_df (age_profile (149 / 10)) ''auto'' 30) = Inr ''knn''
   \<and> list_ex (\<lambda>(col, pct). pct \<le> 30) (items (missing (age_profile 15)))
   \<and> map_sum id (\<lambda>(t, r). method_used r)
        (impute_missing mean_imputer people_df (age_profile 15) ''auto'' 30) = Inr ''random_forest''"
proof -
  have h: "list_ex (\<lambda>(col, pct). pct \<le> 30) (items (missing (age_profile pct)))"
    if "pct \<le> 30" for pct
    using that by (simp add: items_age_profile)
  have a: "impute_missing mean_imputer people_df (age_profile (49 / 10)) ''auto'' 30 =
           impute_missing mean_imputer people_df (age_profile (49 / 10)) ''simple'' 30"
  proof -
    have le: "(49 / 10 :: real) \<le> 30" by simp
    from auto_selects_by_max_eligible [OF h [OF le], of mean_imputer people_df,
           unfolded age_eligible [OF le]]
    show ?thesis by (simp add: Let_def)
  qed
  have b: "impute_missing mean_imputer people_df (age_profile (5)) ''auto'' 30 =
           impute_missing mean_imputer people_df (age_profile (5)) ''knn'' 30"
  proof -
    have le: "(5 :: real) \<le> 30" by simp
    from auto_selects_by_max_eligible [OF h [OF le], of mean_imputer people_df,
           unfolded age_eligible [OF le]]
    show ?thesis by (simp add: Let_def)
  qed
  have c: "impute_missing mean_imputer people_df (age_profile (149 / 10)) ''auto'' 30 =
           impute_missing mean_imputer people_df (age_profile (149 / 10)) ''knn'' 30"
  proof -
    have le: "(149 / 10 :: real) \<le> 30" by simp
    from auto_selects_by_max_eligible [OF h [OF le], of mean_imputer people_df,
           unfolded age_eligible [OF le]]
    show ?thesis by (simp add: Let_def)
  qed
  have d: "impute_missing mean_imputer people_df (age_profile (15)) ''auto'' 30 =
           impute_missing mean_imputer people_df (age_profile (15)) ''random_forest'' 30"
  proof -
    have le: "(15 :: real) \<le> 30" by simp
    from auto_selects_by_max_eligible [OF h [OF le], of mean_imputer people_df,
           unfolded age_eligible [OF le]]
    show ?thesis by (simp add: Let_def)
  qed
  show ?thesis
    unfolding a b c d by (simp add: h age_simple age_knn age_random_forest)
qed

text \<open>
  C8. For every imputer, table, profile and threshold, \<^verbatim>\<open>impute_missing\<close> with method
  random_forest and with method knn end the same way: the same error, or the same cleaned
  table with the same imputed and skipped columns. Only the reported method name can
  differ.
\<close>

theorem random_forest_same_as_knn:
  "map_sum id fst (impute_missing knn df prof ''random_forest'' thr)
     = map_sum id fst (impute_missing knn df prof ''knn'' thr)
   \<and> map_sum id (\<lambda>(t, r). (imputed_columns r, skipped_columns r))
       (impute_missing knn df prof ''random_forest'' thr)
     = map_sum id (\<lambda>(t, r). (imputed_columns r, skipped_columns r))
       (impute_missing knn df prof ''knn'' thr)"
  by (simp add: impute_missing_def random_forest_impute_def Let_def split: sum.splits)

section \<open>Outlier detection\<close>

text \<open>
  C6. \<^verbatim>\<open>detect_outliers\<close> with method knn or isolation_forest: when the numeric columns
  of the profile are columns of the table and fewer than 10 rows remain after the rows
  with a missing value in one of them are dropped, the call raises no error and returns
  an empty list of outlier indices (with count 0), whatever the detector.
\<close>

theorem few_complete_rows_no_outliers:
  assumes "method = ''knn'' \<or> method = ''isolation_forest''"
    and "df_select df (numeric_cols prof) = Inr X"
    and "length (dropna_index (df_len df) X) < 10"
  shows "detect_outliers num lof isf df prof method =
           Inr \<lparr>outlier_indices = [],
                outlier_method_used = (if numeric_cols prof = [] then ''none'' else method),
                outlier_count = 0\<rparr>"
  using assms
  by (auto simp: detect_outliers_def knn_outliers_def isolation_forest_outliers_def Let_def)

theorem few_complete_rows_no_outliers_witness:
  "df_select people_df (numeric_cols people_profile) =
     Inr [NumCol [Some 25, Some 30, Some 35, None, Some 40],
          NumCol [Some 50000, Some 60000, None, Some 80000, Some 90000]]
   \<and> length (dropna_index (df_len people_df)
        [NumCol [Some 25, Some 30, Some 35, None, Some 40],
         NumCol [Some 50000, Some 60000, None, Some 80000, Some 90000]]) = 3
   \<and> detect_outliers exact_numerics no_outliers no_outliers people_df people_profile ''knn'' =
        Inr \<lparr>outlier_indices = [], outlier_method_used = ''knn'', outlier_count = 0\<rparr>
   \<and> detect_outliers exact_numerics no_outliers no_outliers people_df people_profile ''isolation_forest'' =
        Inr \<lparr>outlier_indices = [], outlier_method_used = ''isolation_forest'', outlier_count = 0\<rparr>"
  using few_complete_rows_no_outliers [of "''knn''" people_df people_profile _ exact_numerics no_outliers no_outliers,
          OF _ people_select]
        few_complete_rows_no_outliers [of "''isolation_forest''" people_df people_profile _ exact_numerics no_outliers no_outliers,
          OF _ people_select]
  by (simp add: people_select people_dropna) (simp add: people_profile_def)



section \<open>Profiling\<close>

text \<open>
  C2 (as amended). \<^verbatim>\<open>profile_data\<close> returns a profile for every table and never fails;
  the profile reports the row and column counts of the table. For the table with zero
  columns it returns the profile with \<open>cols = 0\<close>, no missing entries, empty column lists
  and dimensionality low: the source has no check that would raise a schema error. The
  model is a function of the table (and of the float64 computation of a percentage), so
  the result depends on nothing else.
\<close>

theorem profile_data_total:
  "(\<exists>p. profile_data pct df = Inr p \<and> rows p = df_len df \<and> cols p = length df)
   \<and> profile_data pct [] =
       Inr \<lparr>rows = 0, cols = 0, missing = DAList.empty, numeric_cols = [],
            categorical_cols = [], date_cols = [], high_cardinality = [],
            dimensionality = ''low''\<rparr>"
  by (simp add: profile_data_def Let_def df_len_def)

theorem profile_data_no_columns_counterexample:
  "profile_data exact_percentage [] =
       Inr \<lparr>rows = 0, cols = 0, missing = DAList.empty, numeric_cols = [],
            categorical_cols = [], date_cols = [], high_cardinality = [],
            dimensionality = ''low''\<rparr>"
  by (simp add: profile_data_def Let_def df_len_def)

section \<open>Statistical analysis\<close>

text \<open>
  C9. Whenever \<^verbatim>\<open>analyze_data\<close> returns a result, its \<^verbatim>\<open>correlations\<close> field is
  present exactly when the profile lists at least two numeric columns, and is
  \<^verbatim>\<open>None\<close> otherwise. The call does return when the numeric columns of the profile are
  numeric columns of the table and the categorical columns that are summarised are
  columns of the table; the field then holds the correlation matrix of all the numeric
  columns of the profile, as a dict of dicts keyed by their names.
\<close>

theorem correlations_iff_two_numeric:
  "(\<forall>r. analyze_data summ corr fs df prof = Inr r \<longrightarrow>
        (correlations r \<noteq> None \<longleftrightarrow> 2 \<le> length (numeric_cols prof)))
   \<and> (list_all (numeric_in df) (numeric_cols prof)
        \<and> list_all (\<lambda>col. col \<in> set (high_cardinality prof) \<or> map_of df col \<noteq> None)
             (categorical_cols prof) \<longrightarrow>
        (\<exists>r. analyze_data summ corr fs df prof = Inr r
           \<and> correlations r =
               (if 2 \<le> length (numeric_cols prof)
                then Some (to_dict (numeric_cols prof) (corr (map (num_values df) (numeric_cols prof))))
                else None)))"
proof (intro conjI allI impI)
  fix r
  assume "analyze_data summ corr fs df prof = Inr r"
  then show "correlations r \<noteq> None \<longleftrightarrow> 2 \<le> length (numeric_cols prof)"
    by (auto simp: analyze_data_def split: sum.splits if_splits)
next
  assume a: "list_all (numeric_in df) (numeric_cols prof)
        \<and> list_all (\<lambda>col. col \<in> set (high_cardinality prof) \<or> map_of df col \<noteq> None)
             (categorical_cols prof)"
  obtain stats where s: "statistics_loop summ df (numeric_cols prof) [] = Inr stats"
    using a statistics_loop_returns by blast
  obtain summary where c:
    "categorical_loop fs df (categorical_cols prof) (high_cardinality prof) [] = Inr summary"
    using a categorical_loop_returns by blast
  show "\<exists>r. analyze_data summ corr fs df prof = Inr r
           \<and> correlations r =
               (if 2 \<le> length (numeric_cols prof)
                then Some (to_dict (numeric_cols prof) (corr (map (num_values df) (numeric_cols prof))))
                else None)"
    using a s c by (simp add: analyze_data_def df_select_numeric as_float_array_NumCol)
qed

theorem correlations_iff_two_numeric_witness:
  "list_all (numeric_in corr_df) (numeric_cols corr_profile)
   \<and> list_all (\<lambda>col. col \<in> set (high_cardinality corr_profile) \<or> map_of corr_df col \<noteq> None)
        (categorical_cols corr_profile)
   \<and> map_sum id correlations (analyze_data exact_summary unit_corr plain_str corr_df corr_profile) =
        Inr (Some [(''x'', [(''x'', Some 1), (''y'', Some 1), (''z'', Some 1)]),
                   (''y'', [(''x'', Some 1), (''y'', Some 1), (''z'', Some 1)]),
                   (''z'', [(''x'', Some 1), (''y'', Some 1), (''z'', Some 1)])])
   \<and> list_all (numeric_in people_df) (numeric_cols labels_profile)
   \<and> list_all (\<lambda>col. col \<in> set (high_cardinality labels_profile) \<or> map_of people_df col \<noteq> None)
        (categorical_cols labels_profile)
   \<and> map_sum id correlations (analyze_data exact_summary unit_corr plain_str people_df labels_profile) = Inr None"
proof -
  have c: "list_all (\<lambda>col. col \<in> set (high_cardinality corr_profile) \<or> map_of corr_df col \<noteq> None)
        (categorical_cols corr_profile)"
    by (simp add: corr_profile_def)
  have l: "list_all (numeric_in people_df) (numeric_cols labels_profile)"
     "list_all (\<lambda>col. col \<in> set (high_cardinality labels_profile) \<or> map_of people_df col \<noteq> None)
        (categorical_cols labels_profile)"
    by (simp_all add: labels_profile_def people_df_def)
  have n3: "2 \<le> length (numeric_cols corr_profile)" "\<not> 2 \<le> length (numeric_cols labels_profile)"
    by (simp_all add: corr_profile_def labels_profile_def)
  from correlations_iff_two_numeric [of exact_summary unit_corr plain_str corr_df corr_profile] corr_numeric c n3
  have 1: "map_sum id correlations (analyze_data exact_summary unit_corr plain_str corr_df corr_profile) =
        Inr (Some [(''x'', [(''x'', Some 1), (''y'', Some 1), (''z'', Some 1)]),
                   (''y'', [(''x'', Some 1), (''y'', Some 1), (''z'', Some 1)]),
                   (''z'', [(''x'', Some 1), (''y'', Some 1), (''z'', Some 1)])])"
    by (auto simp: corr_to_dict)
  from correlations_iff_two_numeric [of exact_summary unit_corr plain_str people_df labels_profile] l n3
  have 2: "map_sum id correlations (analyze_data exact_summary unit_corr plain_str people_df labels_profile) = Inr None"
    by auto
  show ?thesis using corr_numeric c l 1 2 by simp
qed

section \<open>Imputation: which columns are filled\<close>

text \<open>
  C3 (as amended). After \<^verbatim>\<open>impute_missing\<close> with method simple or knn has returned, an
  eligible column (missing-percentage at or below the threshold) has no missing cell left
  in the returned table, provided that the profile lists it as numeric or categorical and
  that it had at least one cell that was not missing; for method knn the imputer is
  assumed never to return a missing cell, as \<^verbatim>\<open>KNNImputer\<close> does. A column without any
  value stays as it is: its median is NaN and its mode is empty. The counterexample is a
  frame with such columns, eligible under the threshold 100, that method simple returns
  unchanged.
\<close>

theorem eligible_columns_filled:
  assumes m: "method = ''simple'' \<or> method = ''knn''"
    and ret: "impute_missing knn df prof method thr = Inr (df', res)"
    and el: "(col, pct) \<in> set (items (missing prof))" "pct \<le> thr"
    and listed: "col \<in> set (numeric_cols prof) \<or> col \<in> set (categorical_cols prof)"
    and hv: "has_value df col"
    and lib: "method = ''knn'' \<longrightarrow> (\<forall>A B. knn A = Inr B \<longrightarrow> list_all (\<lambda>vs. None \<notin> set vs) B)"
  shows "fully_observed df' col"
proof -
  let ?miss = "cols_to_impute prof thr"
  have c: "contains ?miss col" using el by (rule eligible_contains)
  have ne: "items (missing prof) \<noteq> []" "items ?miss \<noteq> []"
    using el by (auto simp: items_cols_to_impute filter_empty_conv)
  from m show ?thesis
  proof
    assume s: "method = ''simple''"
    with ret ne obtain df1 where
      n: "simple_numeric (numeric_cols prof) ?miss df = Inr df1" and
      k: "categorical_mode (categorical_cols prof) ?miss df1 = Inr df'"
      by (auto simp: impute_missing_def simple_impute_def Let_def split: sum.splits)
    from simple_numeric_inv [OF n, of col] hv c
    have "has_value df1 col" "col \<in> set (numeric_cols prof) \<Longrightarrow> fully_observed df1 col"
      by auto
    with categorical_mode_inv [OF k, of col] c listed show ?thesis by auto
  next
    assume s: "method = ''knn''"
    with ret ne obtain df1 where
      n: "knn_numeric knn df (numeric_cols prof) = Inr df1" and
      k: "categorical_mode (categorical_cols prof) ?miss df1 = Inr df'"
      by (auto simp: impute_missing_def knn_impute_def Let_def split: sum.splits)
    have 1: "col \<in> set (numeric_cols prof) \<Longrightarrow> fully_observed df1 col"
      and 2: "col \<notin> set (numeric_cols prof) \<Longrightarrow> map_of df1 col = map_of df col"
    proof -
      show "fully_observed df1 col" if "col \<in> set (numeric_cols prof)"
      proof -
        from that have "numeric_cols prof \<noteq> []" by auto
        with n obtain A B where "knn A = Inr B" "df_store df (numeric_cols prof) B = Inr df1"
          by (auto simp: knn_numeric_def df_set_array_def split: sum.splits if_splits)
        with lib s df_store_inv [of df "numeric_cols prof" B df1 col] that show ?thesis
          by auto
      qed
      show "map_of df1 col = map_of df col" if "col \<notin> set (numeric_cols prof)"
      proof (cases "numeric_cols prof = []")
        case True
        with n show ?thesis by (simp add: knn_numeric_def)
      next
        case False
        with n obtain A B where "knn A = Inr B" "df_store df (numeric_cols prof) B = Inr df1"
          by (auto simp: knn_numeric_def df_set_array_def split: sum.splits if_splits)
        with lib s df_store_inv [of df "numeric_cols prof" B df1 col] that show ?thesis
          by auto
      qed
    qed
    show ?thesis
    proof (cases "col \<in> set (numeric_cols prof)")
      case True
      with 1 categorical_mode_inv [OF k, of col] show ?thesis by auto
    next
      case False
      with 2 hv have "has_value df1 col" by (simp add: has_value_def)
      moreover from False listed have "col \<in> set (categorical_cols prof)" by simp
      ultimately show ?thesis using categorical_mode_inv [OF k, of col] c by auto
    qed
  qed
qed

theorem eligible_columns_filled_witness:
  "impute_missing mean_imputer people_df people_profile ''knn'' 30 =
     Inr ([(''age'', NumCol [Some 25, Some 30, Some 35, Some (65 / 2), Some 40]),
           (''income'', NumCol [Some 50000, Some 60000, Some 70000, Some 80000, Some 90000]),
           (''city'', ObjCol [Some ''NYC'', Some ''LA'', Some ''LA'', Some ''NYC'', Some ''LA''])],
          \<lparr>imputed_columns = [''age'', ''income'', ''city''], skipped_columns = [],
           method_used = ''knn''\<rparr>)
   \<and> (''city'', 20) \<in> set (items (missing people_profile)) \<and> (20::real) \<le> 30
   \<and> ''city'' \<in> set (categorical_cols people_profile)
   \<and> has_value people_df ''city''
   \<and> fully_observed
        [(''age'', NumCol [Some 25, Some 30, Some 35, Some (65 / 2), Some 40]),
         (''income'', NumCol [Some 50000, Some 60000, Some 70000, Some 80000, Some 90000]),
         (''city'', ObjCol [Some ''NYC'', Some ''LA'', Some ''LA'', Some ''NYC'', Some ''LA''])]
        ''city''"
proof -
  have el: "(''city'', 20) \<in> set (items (missing people_profile))" "(20::real) \<le> 30"
    by (simp_all add: items_people_profile)
  have l: "''city'' \<in> set (numeric_cols people_profile) \<or> ''city'' \<in> set (categorical_cols people_profile)"
    by (simp add: people_profile_def)
  have hv: "has_value people_df ''city''"
    by (simp add: has_value_def people_df_def n_missing_def n_rows_def)
  have lib: "''knn'' = ''knn'' \<longrightarrow>
      (\<forall>A B. mean_imputer A = Inr B \<longrightarrow> list_all (\<lambda>vs. None \<notin> set vs) B)"
    using mean_imputer_complete by blast
  from eligible_columns_filled [OF _ people_knn el l hv lib]
  show ?thesis using el hv by (simp add: people_knn) (simp add: people_profile_def)
qed

theorem eligible_columns_filled_counterexample:
  "impute_missing mean_imputer hollow_df hollow_profile ''simple'' 100 =
     Inr (hollow_df, \<lparr>imputed_columns = [''x'', ''z''], skipped_columns = [],
                      method_used = ''simple''\<rparr>)
   \<and> (''x'', 100) \<in> set (items (missing hollow_profile)) \<and> (100::real) \<le> 100
   \<and> \<not> fully_observed hollow_df ''x''
   \<and> (''z'', 100) \<in> set (items (missing hollow_profile))
   \<and> \<not> fully_observed hollow_df ''z''"
  by code_simp

text \<open>
  C1, at the failing input. The profile of \<open>sparse_df\<close> gives column \<open>a\<close> 50 percent and
  column \<open>b\<close> 25 percent missing. With the threshold 30 and method knn or random_forest,
  \<open>a\<close> is reported as skipped and \<open>b\<close> as imputed, and yet the returned column \<open>a\<close> is
  the column that the imputer returned for it: \<^verbatim>\<open>_knn_impute\<close> hands all the numeric
  columns of the profile to the imputer and stores all of them back, eligible or not.
\<close>

theorem knn_overwrites_skipped_column:
  assumes "method = ''knn'' \<or> method = ''random_forest''"
    and "knn [[Some 1, None, None, Some 4], [Some 1, Some 2, Some 3, None]] = Inr [a', b']"
    and "length a' = 4" and "length b' = 4"
  shows "impute_missing knn sparse_df sparse_profile method 30 =
           Inr ([(''a'', NumCol a'), (''b'', NumCol b')],
                \<lparr>imputed_columns = [''b''], skipped_columns = [''a''], method_used = method\<rparr>)"
proof -
  have i: "items (cols_to_impute sparse_profile 30) = [(''b'', 25)]"
    "items (skipped sparse_profile 30) = [(''a'', 50)]"
    by (simp_all add: items_cols_to_impute items_skipped items_sparse_profile)
  have n: "knn_numeric knn sparse_df [''a'', ''b''] =
             Inr [(''a'', NumCol a'), (''b'', NumCol b')]"
    using assms(2-4)
    by (simp add: knn_numeric_def sparse_df_def df_get_def df_set_array_def df_set_def
          df_len_def n_rows_def)
  have k: "knn_impute knn sparse_df (sparse_profile\<lparr>missing := cols_to_impute sparse_profile 30\<rparr>) =
             Inr [(''a'', NumCol a'), (''b'', NumCol b')]"
    using n by (simp add: knn_impute_def sparse_profile_def)
  from assms(1) show ?thesis
    using i k
    by (auto simp: impute_missing_def random_forest_impute_def Let_def keys_def
          items_sparse_profile)
qed

theorem knn_overwrites_skipped_column_witness:
  "mean_imputer [[Some 1, None, None, Some 4], [Some 1, Some 2, Some 3, None]] =
     Inr [[Some 1, Some (5 / 2), Some (5 / 2), Some 4], [Some 1, Some 2, Some 3, Some 2]]
   \<and> impute_missing mean_imputer sparse_df sparse_profile ''knn'' 30 =
       Inr ([(''a'', NumCol [Some 1, Some (5 / 2), Some (5 / 2), Some 4]),
             (''b'', NumCol [Some 1, Some 2, Some 3, Some 2])],
            \<lparr>imputed_columns = [''b''], skipped_columns = [''a''], method_used = ''knn''\<rparr>)
   \<and> (''a'', 50) \<in> set (items (missing sparse_profile)) \<and> (50::real) > 30
   \<and> num_values sparse_df ''a'' ! 1 = None"
  using knn_overwrites_skipped_column [of "''knn''" mean_imputer, OF _ sparse_mean]
  by (simp add: sparse_mean items_sparse_profile num_values_def sparse_df_def)

text \<open>
  The rest of C1 holds: a column above the threshold is never reported as imputed,
  whatever the method, and method simple returns it as it was.
\<close>

lemma skipped_never_reported_imputed:
  assumes "impute_missing knn df prof method thr = Inr (df', res)"
    and "(col, pct) \<in> set (items (missing prof))" and "pct > thr"
  shows "col \<notin> set (imputed_columns res)"
proof -
  have "col \<notin> set (keys (cols_to_impute prof thr))"
    using skipped_not_eligible [OF assms(2,3)] by (simp add: contains_keys)
  with assms(1) show ?thesis
    by (auto simp: impute_missing_def Let_def split: if_splits sum.splits)
qed

lemma simple_leaves_skipped:
  assumes "impute_missing knn df prof ''simple'' thr = Inr (df', res)"
    and "(col, pct) \<in> set (items (missing prof))" and "pct > thr"
  shows "map_of df' col = map_of df col"
proof (cases "items (cols_to_impute prof thr) = []")
  case True
  with assms(1) show ?thesis by (auto simp: impute_missing_def split: if_splits)
next
  case False
  note n = skipped_not_eligible [OF assms(2,3)]
  from assms(1,2) False obtain df1 where
    a: "simple_numeric (numeric_cols prof) (cols_to_impute prof thr) df = Inr df1" and
    b: "categorical_mode (categorical_cols prof) (cols_to_impute prof thr) df1 = Inr df'"
    by (auto simp: impute_missing_def simple_impute_def Let_def split: sum.splits if_splits)
  from simple_numeric_frame [OF a n] categorical_mode_frame [OF b n] show ?thesis by simp
qed

end
